theory Spec2Isabelle
  imports Main
begin

section \<open>The service watcher: data\<close>

text \<open>
  The program is one Go function, \<open>main\<close> of \<open>service-watcher.go\<close>: a start-up part
  (the global authentication plugin) and an endless loop that, on every tick of a
  five-second ticker, walks over the labelled containers and then searches the gateway for
  targets of containers that are gone. Everything it does is a call to the container
  runtime, a call to the gateway, or a log line, so the model computes the sequence of
  these events from the answers the two systems give.

  A Go call \<open>v, err := f(...)\<close> hands back a value and an error together, and the program
  reads the value of several calls whatever the error was. The answers are therefore pairs
  of a value and an optional error, and pointers of the runtime's inspection record that
  the program follows are options.
\<close>

type_synonym error = string

text \<open>\<open>State.Health\<close> (a pointer, compared with nil in the source) and its \<open>Status\<close>.\<close>

record Health =
  HealthStatus :: string

record ContainerState =
  Status :: string
  Health :: "Health option"

text \<open>\<open>Labels\<close> is a Go map from string to string, kept as an association list and read
  through \<open>map_of\<close>.\<close>

record ContainerConfig =
  Hostname :: string
  Labels :: "(string \<times> string) list"

text \<open>The inspection record. \<open>State\<close> and \<open>Config\<close> are pointers in the runtime's client
  library; its zero value has neither.\<close>

record ContainerJSON =
  State :: "ContainerState option"
  Config :: "ContainerConfig option"

record Container =
  ID :: string

record GatewayConfiguration =
  ServiceName :: string
  UpstreamName :: string
  ServicePath :: string

text \<open>A gateway plugin: its name, the service and the route it is bound to (nil for a
  global plugin), its configuration and whether it is enabled. The name of a plugin, the
  ID of an upstream and the target string of a target are pointers that the gateway fills
  in every entity it lists; they are plain values here.\<close>

record Plugin =
  Name :: string
  Service :: "string option"
  Route :: "string option"
  Configuration :: "(string \<times> string) list"
  Enabled :: bool

record Upstream =
  UpstreamID :: string

record Target =
  TargetAddr :: string

datatype level = NoLevel | Debug | Info | Warn | Error

text \<open>What the program does to the outside, in order: log lines, calls to the container
  runtime (\<open>ContainerList\<close> with its \<open>All\<close> flag and its filter arguments,
  \<open>ContainerInspect\<close>), the two helpers \<open>utils.RegisterContainer\<close> and
  \<open>utils.RemoveContainer\<close>, and calls to the gateway's plugin, upstream and target
  services.\<close>

datatype event =
    LogMsg level string
  | ContainerListCall bool "(string \<times> string) list"
  | ContainerInspectCall string
  | RegisterContainer GatewayConfiguration ContainerJSON
  | RemoveContainer GatewayConfiguration ContainerJSON
  | PluginsListAllCall
  | PluginsCreateCall Plugin
  | UpstreamsListCall "string list"
  | TargetsListCall string "string list"
  | TargetsDeleteCall string string

text \<open>The calls that change the gateway.\<close>

fun is_mutation :: "event \<Rightarrow> bool" where
  "is_mutation (RegisterContainer _ _) = True"
| "is_mutation (RemoveContainer _ _) = True"
| "is_mutation (PluginsCreateCall _) = True"
| "is_mutation (TargetsDeleteCall _ _) = True"
| "is_mutation _ = False"

text \<open>The answers of the container runtime and of the gateway during one tick. The
  labelled listing and the unfiltered listing are two calls, and a container is inspected
  once in each pass, so each has its own answer.\<close>

record replies =
  list_service :: "Container list \<times> error option"
  inspect_service :: "string \<Rightarrow> ContainerJSON \<times> error option"
  list_all :: "Container list \<times> error option"
  inspect_any :: "string \<Rightarrow> ContainerJSON \<times> error option"
  upstreams_list :: "Upstream list \<times> error option"
  targets_list :: "string \<Rightarrow> Target list \<times> error option"
  targets_delete :: "string \<Rightarrow> string \<Rightarrow> error option"

text \<open>The answers of the gateway at start-up, and the \<open>INTROSPECTION_URL\<close> setting.\<close>

record startup_replies =
  plugins_list_all :: "Plugin list \<times> error option"
  plugins_create :: "error option"
  introspection_url :: string

text \<open>How a stretch of the program ends: it goes on, or a nil pointer is followed and the
  process stops.\<close>

datatype status = Running | Crashed

text \<open>How one round of the loop over the containers ends: with the next container
  (\<open>continue\<close>, or the end of the body), with \<open>break\<close>, or with a nil pointer followed.\<close>

datatype flow = Next | Break | Fault

definition emit :: "event list \<Rightarrow> event list \<times> 'a \<Rightarrow> event list \<times> 'a" where
  "emit evs r = (evs @ fst r, snd r)"

definition followed_by :: "event list \<times> status \<Rightarrow> event list \<times> status \<Rightarrow> event list \<times> status" where
  "followed_by a b = (case snd a of Crashed \<Rightarrow> (fst a, Crashed) | Running \<Rightarrow> emit (fst a) b)"

section \<open>Library functions the program calls\<close>

text \<open>Reading a Go map: a missing key reads as the empty string.\<close>

definition label :: "(string \<times> string) list \<Rightarrow> string \<Rightarrow> string" where
  "label ls k = (case map_of ls k of None \<Rightarrow> [] | Some v \<Rightarrow> v)"

text \<open>\<open>strconv.ParseBool\<close> of Go's standard library: six spellings of true, six of false,
  an error for every other string.\<close>

definition ParseBool :: "string \<Rightarrow> bool \<times> error option" where
  "ParseBool str =
     (if str \<in> set [''1'', ''t'', ''T'', ''true'', ''TRUE'', ''True''] then (True, None)
      else if str \<in> set [''0'', ''f'', ''F'', ''false'', ''FALSE'', ''False''] then (False, None)
      else (False, Some ''invalid syntax''))"

text \<open>\<open>strings.Split\<close> of Go's standard library, for a separator of one character: the
  pieces between the separators, one piece more than there are separators.\<close>

fun strings_Split :: "string \<Rightarrow> char \<Rightarrow> string list" where
  "strings_Split [] sep = [[]]"
| "strings_Split (c # cs) sep =
     (if c = sep then [] # strings_Split cs sep
      else (case strings_Split cs sep of [] \<Rightarrow> [[c]] | p # ps \<Rightarrow> (c # p) # ps))"

text \<open>Modelled from the spec: \<open>utils.MapHasKey\<close> is not among the sources; the spec's
  configuration check "requires presence of three specific keys".\<close>

definition MapHasKey :: "(string \<times> string) list \<Rightarrow> string \<Rightarrow> bool" where
  "MapHasKey m k = (map_of m k \<noteq> None)"

text \<open>Modelled from the spec: \<open>utils.ArrayContains\<close> is not among the sources; the spec
  deletes a target "if that host is not in the current hostname set".\<close>

definition ArrayContains :: "string list \<Rightarrow> string \<Rightarrow> bool" where
  "ArrayContains xs x = (x \<in> set xs)"

section \<open>Start-up: the global authentication plugin\<close>

definition is_global_auth :: "Plugin \<Rightarrow> bool" where
  "is_global_auth plugin =
     (Name plugin = ''kong-internal-db-auth'' \<and> Service plugin = None \<and> Route plugin = None)"

text \<open>The loop over the listed plugins, with its \<open>break\<close> at the first match.\<close>

fun authEnabled :: "Plugin list \<Rightarrow> bool" where
  "authEnabled [] = False"
| "authEnabled (plugin # plugins) = (if is_global_auth plugin then True else authEnabled plugins)"

definition auth_plugin :: "string \<Rightarrow> Plugin" where
  "auth_plugin url =
     \<lparr>Name = ''kong-internal-db-auth'', Service = None, Route = None,
      Configuration = [(''intospection_url'', url), (''auth_header'', ''ignore'')],
      Enabled = True\<rparr>"

text \<open>Lines 18 to 51. The error of the plugin listing is dropped (\<open>plugins, _ := ...\<close>).\<close>

definition startup :: "startup_replies \<Rightarrow> event list \<times> status" where
  "startup r =
     emit [LogMsg NoLevel ''starting service watcher'', PluginsListAllCall]
       (case plugins_list_all r of (plugins, _) \<Rightarrow>
          if \<not> authEnabled plugins then
            emit [PluginsCreateCall (auth_plugin (introspection_url r))]
              (case plugins_create r of
                 Some err \<Rightarrow>
                   ([LogMsg Warn ''unable to enable global authentication. services may be unprotected''],
                    Running)
               | None \<Rightarrow> ([], Running))
          else ([], Running))"

text \<open>The gateway's plugins after start-up, for a gateway that held \<open>gw\<close> before: a create
  call that the gateway accepts adds the submitted plugin.\<close>

definition plugins_after_startup :: "Plugin list \<Rightarrow> startup_replies \<Rightarrow> Plugin list" where
  "plugins_after_startup gw r =
     (if PluginsCreateCall (auth_plugin (introspection_url r)) \<in> set (fst (startup r))
         \<and> plugins_create r = None
      then gw @ [auth_plugin (introspection_url r)] else gw)"

section \<open>The pass over the labelled containers\<close>

text \<open>Lines 108 to 125: register or remove, from the run state and the health state.\<close>

definition register_or_remove :: "GatewayConfiguration \<Rightarrow> ContainerJSON \<Rightarrow> ContainerState \<Rightarrow> event list" where
  "register_or_remove gatewayConfig containerInformation st =
     (if Status st = ''running'' then
        (case Health st of
           None \<Rightarrow>
             [LogMsg Warn ''registering service without enabled health checks'',
              RegisterContainer gatewayConfig containerInformation]
         | Some h \<Rightarrow>
             LogMsg Debug ''determining container health for further action'' #
             (if HealthStatus h = ''unhealthy'' then
                [LogMsg Warn ''found unhealthy docker container. removing container from api gateway'',
                 RemoveContainer gatewayConfig containerInformation]
              else
                [LogMsg Info ''container either starting or healthy. adding container to gateway'',
                 RegisterContainer gatewayConfig containerInformation]))
      else [RemoveContainer gatewayConfig containerInformation])"

text \<open>Lines 103 to 106: the three parameters, read from the labels.\<close>

definition gateway_config :: "(string \<times> string) list \<Rightarrow> GatewayConfiguration" where
  "gateway_config ls =
     \<lparr>ServiceName = label ls ''wisdom-oss.service.name'',
      UpstreamName = label ls ''wisdom-oss.service.upstream-name'',
      ServicePath = label ls ''wisdom-oss.service.path''\<rparr>"

text \<open>Lines 92 to 125, for a container whose marker has parsed as true. \<open>err\<close> is the
  variable the source tests on line 93: the error of \<open>ParseBool\<close>.\<close>

definition configure_and_apply :: "error option \<Rightarrow> ContainerJSON \<Rightarrow> ContainerConfig \<Rightarrow> event list \<times> flow" where
  "configure_and_apply err containerInformation cfg =
     (let rest =
        (case State containerInformation of
           None \<Rightarrow> ([], Fault)
         | Some st \<Rightarrow>
             (register_or_remove (gateway_config (Labels cfg)) containerInformation st, Next))
      in
        if err \<noteq> None then
          emit [LogMsg Warn ''looking for labels on container'']
            (if \<not> MapHasKey (Labels cfg) ''wisdom-oss.service.name''
                \<or> \<not> MapHasKey (Labels cfg) ''wisdom-oss.service.upstream-name''
                \<or> \<not> MapHasKey (Labels cfg) ''wisdom-oss.service.path''
             then ([LogMsg Warn ''labels missing for complete configuration. skipping container''], Next)
             else rest)
        else rest)"

text \<open>Lines 72 to 125: the body of the loop over the labelled containers.\<close>

definition container_step :: "replies \<Rightarrow> Container \<Rightarrow> event list \<times> flow" where
  "container_step w container =
     emit [ContainerInspectCall (ID container)]
       (case inspect_service w (ID container) of (containerInformation, err) \<Rightarrow>
          if err \<noteq> None then ([LogMsg Error ''unable to inspect container''], Break)
          else
            emit [LogMsg Debug ''checking container for labels'']
              (case Config containerInformation of
                 None \<Rightarrow> ([], Fault)
               | Some cfg \<Rightarrow>
                   (case ParseBool (label (Labels cfg) ''wisdom-oss.isService'') of (isService, err) \<Rightarrow>
                      if err \<noteq> None then
                        ([LogMsg Warn ''unable to convert label value to bool'',
                          LogMsg Info ''skipping container''], Next)
                      else if \<not> isService then
                        ([LogMsg Info ''container not marked as service. skipping container''], Next)
                      else configure_and_apply err containerInformation cfg)))"

text \<open>Lines 71 to 126: the loop. \<open>break\<close> leaves this loop, the innermost one.\<close>

fun container_pass :: "replies \<Rightarrow> Container list \<Rightarrow> event list \<times> status" where
  "container_pass w [] = ([], Running)"
| "container_pass w (container # containers) =
     (case container_step w container of
        (evs, Next) \<Rightarrow> emit evs (container_pass w containers)
      | (evs, Break) \<Rightarrow> (evs, Running)
      | (evs, Fault) \<Rightarrow> (evs, Crashed))"

section \<open>The reverse search\<close>

text \<open>Lines 133 to 136: the host names of the listed containers. The error of the
  inspection is dropped and \<open>info.Config.Hostname\<close> is read from whatever came back.\<close>

fun containerHostNames :: "replies \<Rightarrow> Container list \<Rightarrow> event list \<times> string list option" where
  "containerHostNames w [] = ([], Some [])"
| "containerHostNames w (container # containers) =
     emit [ContainerInspectCall (ID container)]
       (case inspect_any w (ID container) of (info, _) \<Rightarrow>
          (case Config info of
             None \<Rightarrow> ([], None)
           | Some cfg \<Rightarrow>
               (case containerHostNames w containers of (evs, names) \<Rightarrow>
                  (evs, map_option (\<lambda>ns. Hostname cfg # ns) names))))"

text \<open>Lines 152 and 153: \<open>targetParts[0]\<close>, which needs a first piece.\<close>

definition target_hostname :: "string \<Rightarrow> string option" where
  "target_hostname target =
     (case strings_Split target (CHR '':'') of [] \<Rightarrow> None | hostname # _ \<Rightarrow> Some hostname)"

text \<open>Lines 151 to 160: the loop over the targets of one upstream.\<close>

fun targets_loop :: "replies \<Rightarrow> string list \<Rightarrow> string \<Rightarrow> Target list \<Rightarrow> event list \<times> status" where
  "targets_loop w names upstream [] = ([], Running)"
| "targets_loop w names upstream (target # targets) =
     (case target_hostname (TargetAddr target) of
        None \<Rightarrow> ([], Crashed)
      | Some hostname \<Rightarrow>
          emit
            (if \<not> ArrayContains names hostname then
               TargetsDeleteCall upstream (TargetAddr target) #
               (case targets_delete w upstream (TargetAddr target) of
                  Some err \<Rightarrow> [LogMsg Warn ''unable to remove deleted docker container'']
                | None \<Rightarrow> [])
             else [])
            (targets_loop w names upstream targets))"

text \<open>Lines 144 to 161: the loop over the upstreams. A failed target listing is logged
  and the loop over whatever came back runs all the same.\<close>

fun upstreams_loop :: "replies \<Rightarrow> string list \<Rightarrow> Upstream list \<Rightarrow> event list \<times> status" where
  "upstreams_loop w names [] = ([], Running)"
| "upstreams_loop w names (upstream # upstreams) =
     emit [TargetsListCall (UpstreamID upstream) [''wisdom'']]
       (case targets_list w (UpstreamID upstream) of (targets, err) \<Rightarrow>
          emit
            (if err \<noteq> None then
               [LogMsg Warn ''unable to get list of upstreams. skipping reverse search this time'']
             else [])
            (followed_by (targets_loop w names (UpstreamID upstream) targets)
               (upstreams_loop w names upstreams)))"

text \<open>Lines 137 to 161: the search through the gateway, with the host names at hand.\<close>

definition sweep :: "replies \<Rightarrow> string list \<Rightarrow> event list \<times> status" where
  "sweep w names =
     emit [UpstreamsListCall [''wisdom'']]
       (case upstreams_list w of (upstreams, err) \<Rightarrow>
          emit
            (if err \<noteq> None then
               [LogMsg Warn ''unable to get list of upstreams. skipping reverse search this time'']
             else [])
            (upstreams_loop w names upstreams))"

text \<open>Lines 131 to 161. The error of the unfiltered listing is overwritten unread.\<close>

definition reverse_search :: "replies \<Rightarrow> event list \<times> status" where
  "reverse_search w =
     emit [ContainerListCall True []]
       (case list_all w of (containers, _) \<Rightarrow>
          (case containerHostNames w containers of
             (evs, None) \<Rightarrow> (evs, Crashed)
           | (evs, Some names) \<Rightarrow> emit evs (sweep w names)))"

section \<open>One tick, and the loop\<close>

text \<open>Lines 55 to 163: the body of the \<open>select\<close> case. A \<open>break\<close> outside the loop over
  the containers leaves the \<open>select\<close>: the tick is over.\<close>

definition tick :: "replies \<Rightarrow> event list \<times> status" where
  "tick w =
     emit [LogMsg Info ''looking for docker containers from wisdom-project'',
           ContainerListCall True [(''label'', ''wisdom-oss.isService'')]]
       (case list_service w of (possibleServiceContainers, err) \<Rightarrow>
          if err \<noteq> None then ([LogMsg Error ''unable to look for containers''], Running)
          else
            emit [LogMsg Info ''search finished'']
              (if length possibleServiceContainers = 0 then
                 ([LogMsg Warn ''no containers found''], Running)
               else
                 emit [LogMsg Info ''building registration information'']
                   (followed_by (container_pass w possibleServiceContainers)
                      (reverse_search w))))"

text \<open>The endless \<open>for\<close> around the \<open>select\<close>, along the ticks that arrive: one list entry
  holds the answers of the outside during one tick.\<close>

fun ticks :: "replies list \<Rightarrow> event list \<times> status" where
  "ticks [] = ([], Running)"
| "ticks (w # ws) = followed_by (tick w) (ticks ws)"

definition main :: "startup_replies \<Rightarrow> replies list \<Rightarrow> event list \<times> status" where
  "main r ws = followed_by (startup r) (ticks ws)"

section \<open>The classification table of the specification\<close>

text \<open>
  The specification's table, written from its words: a run state, a health state, and the
  action for each pair. A health status that is none of the three known ones is
  \<open>Unrecognized\<close>, which the specification registers.
\<close>

datatype RunState = IsRunning | NotRunning

datatype HealthState = NoCheck | Starting | Healthy | Unhealthy | Unrecognized

datatype Action = Register | Deregister

fun classify :: "RunState \<Rightarrow> HealthState \<Rightarrow> Action" where
  "classify NotRunning _ = Deregister"
| "classify IsRunning NoCheck = Register"
| "classify IsRunning Unhealthy = Deregister"
| "classify IsRunning Starting = Register"
| "classify IsRunning Healthy = Register"
| "classify IsRunning Unrecognized = Register"

text \<open>What the runtime reports, read as the table's states.\<close>

definition run_state :: "ContainerState \<Rightarrow> RunState" where
  "run_state st = (if Status st = ''running'' then IsRunning else NotRunning)"

definition health_state :: "ContainerState \<Rightarrow> HealthState" where
  "health_state st =
     (case Health st of
        None \<Rightarrow> NoCheck
      | Some h \<Rightarrow>
          if HealthStatus h = ''starting'' then Starting
          else if HealthStatus h = ''healthy'' then Healthy
          else if HealthStatus h = ''unhealthy'' then Unhealthy
          else Unrecognized)"

fun apply_action :: "Action \<Rightarrow> GatewayConfiguration \<Rightarrow> ContainerJSON \<Rightarrow> event" where
  "apply_action Register c i = RegisterContainer c i"
| "apply_action Deregister c i = RemoveContainer c i"

section \<open>Scenes\<close>

text \<open>
  Concrete answers of the runtime and the gateway, on which the program is run below.
  A failed inspection hands back the zero value of the inspection record with its error.
\<close>

definition zero_ContainerJSON :: ContainerJSON where
  "zero_ContainerJSON = \<lparr>State = None, Config = None\<rparr>"

definition inspected :: "string \<Rightarrow> (string \<times> string) list \<Rightarrow> string \<Rightarrow> Health option \<Rightarrow> ContainerJSON" where
  "inspected hostname labels st health =
     \<lparr>State = Some \<lparr>Status = st, Health = health\<rparr>,
      Config = Some \<lparr>Hostname = hostname, Labels = labels\<rparr>\<rparr>"

definition inspections :: "(string \<times> ContainerJSON) list \<Rightarrow> string \<Rightarrow> ContainerJSON \<times> error option" where
  "inspections known i =
     (case map_of known i of
        Some info \<Rightarrow> (info, None)
      | None \<Rightarrow> (zero_ContainerJSON, Some ''No such container''))"

definition service_labels :: "(string \<times> string) list" where
  "service_labels =
     [(''wisdom-oss.isService'', ''true''), (''wisdom-oss.service.name'', ''svc''),
      (''wisdom-oss.service.upstream-name'', ''up''), (''wisdom-oss.service.path'', ''/api'')]"

text \<open>The labels of scenario D: the marker is true and \<open>wisdom-oss.service.path\<close> is
  missing.\<close>

definition labels_without_path :: "(string \<times> string) list" where
  "labels_without_path =
     [(''wisdom-oss.isService'', ''true''), (''wisdom-oss.service.name'', ''svc''),
      (''wisdom-oss.service.upstream-name'', ''up'')]"

definition nothing_there :: replies where
  "nothing_there =
     \<lparr>list_service = ([], None),
      inspect_service = inspections [],
      list_all = ([], None),
      inspect_any = inspections [],
      upstreams_list = ([], None),
      targets_list = (\<lambda>_. ([], None)),
      targets_delete = (\<lambda>_ _. None)\<rparr>"

text \<open>Scenario A: one labelled container \<open>c1\<close>, running, without a health check. The
  gateway holds one managed upstream with the target of \<open>c1\<close> and the target of a
  container \<open>c3\<close> that no longer exists.\<close>

definition scene_A :: replies where
  "scene_A = nothing_there
     \<lparr>list_service := ([\<lparr>ID = ''c1''\<rparr>], None),
      inspect_service := inspections [(''c1'', inspected ''c1-host'' service_labels ''running'' None)],
      list_all := ([\<lparr>ID = ''c1''\<rparr>], None),
      inspect_any := inspections [(''c1'', inspected ''c1-host'' service_labels ''running'' None)],
      upstreams_list := ([\<lparr>UpstreamID = ''u1''\<rparr>], None),
      targets_list := (\<lambda>u. if u = ''u1''
                            then ([\<lparr>TargetAddr = ''c1-host:8000''\<rparr>, \<lparr>TargetAddr = ''c3-host:8000''\<rparr>], None)
                            else ([], Some ''not found''))\<rparr>"

text \<open>Scenario D: container \<open>c4\<close>, running, without a health check.\<close>

definition scene_D :: replies where
  "scene_D = nothing_there
     \<lparr>list_service := ([\<lparr>ID = ''c4''\<rparr>], None),
      inspect_service := inspections [(''c4'', inspected ''c4-host'' labels_without_path ''running'' None)],
      list_all := ([\<lparr>ID = ''c4''\<rparr>], None),
      inspect_any := inspections [(''c4'', inspected ''c4-host'' labels_without_path ''running'' None)]\<rparr>"

text \<open>Two labelled containers; in the first pass the inspection of \<open>c1\<close> fails and that
  of \<open>c2\<close>, a running service, would succeed.\<close>

definition scene_lost :: replies where
  "scene_lost = nothing_there
     \<lparr>list_service := ([\<lparr>ID = ''c1''\<rparr>, \<lparr>ID = ''c2''\<rparr>], None),
      inspect_service := inspections [(''c2'', inspected ''c2-host'' service_labels ''running'' None)],
      list_all := ([\<lparr>ID = ''c1''\<rparr>, \<lparr>ID = ''c2''\<rparr>], None),
      inspect_any := inspections [(''c1'', inspected ''c1-host'' service_labels ''running'' None),
                                  (''c2'', inspected ''c2-host'' service_labels ''running'' None)]\<rparr>"

text \<open>The unfiltered listing of the reverse search fails, while \<open>c1\<close> is alive and
  labelled.\<close>

definition scene_all_listing_fails :: replies where
  "scene_all_listing_fails = scene_A \<lparr>list_all := ([], Some ''cannot connect to the daemon'')\<rparr>"

text \<open>The labelled listing fails; the labelled listing is empty.\<close>

definition scene_listing_fails :: replies where
  "scene_listing_fails = scene_A \<lparr>list_service := ([], Some ''cannot connect to the daemon'')\<rparr>"

definition scene_no_service :: replies where
  "scene_no_service = scene_A \<lparr>list_service := ([], None), list_all := ([], None)\<rparr>"

text \<open>A container whose marker is \<open>yes\<close>, listed before \<open>c1\<close>.\<close>

definition scene_skip :: replies where
  "scene_skip = nothing_there
     \<lparr>list_service := ([\<lparr>ID = ''c5''\<rparr>, \<lparr>ID = ''c1''\<rparr>], None),
      inspect_service :=
        inspections [(''c5'', inspected ''c5-host'' [(''wisdom-oss.isService'', ''yes'')] ''running'' None),
                     (''c1'', inspected ''c1-host'' service_labels ''running'' None)]\<rparr>"

text \<open>Later ticks for the same two containers: one whose labelled listing fails, and one
  that lists \<open>c1\<close> before \<open>c5\<close>.\<close>

definition scene_skip_unlisted :: replies where
  "scene_skip_unlisted = scene_skip \<lparr>list_service := ([], Some ''cannot connect to the daemon'')\<rparr>"

definition scene_later :: replies where
  "scene_later = scene_skip \<lparr>list_service := ([\<lparr>ID = ''c1''\<rparr>, \<lparr>ID = ''c5''\<rparr>], None)\<rparr>"

text \<open>The gateway fails to list the upstreams; it fails to list the targets.\<close>

definition scene_gateway_down :: replies where
  "scene_gateway_down = scene_A \<lparr>upstreams_list := ([], Some ''gateway unreachable'')\<rparr>"

definition scene_targets_down :: replies where
  "scene_targets_down = scene_A \<lparr>targets_list := (\<lambda>_. ([], Some ''gateway unreachable''))\<rparr>"

text \<open>In the reverse search the inspection of \<open>c1\<close> fails, with the zero value of the
  record.\<close>

definition scene_reap_blind :: replies where
  "scene_reap_blind = scene_A
     \<lparr>inspect_any := (\<lambda>_. (zero_ContainerJSON, Some ''context deadline exceeded''))\<rparr>"


section \<open>Auxiliary facts\<close>

lemmas scene_defs =
  zero_ContainerJSON_def inspected_def inspections_def service_labels_def labels_without_path_def
  nothing_there_def scene_A_def scene_D_def scene_lost_def scene_listing_fails_def
  scene_no_service_def scene_skip_def scene_gateway_down_def scene_targets_down_def
  scene_reap_blind_def scene_all_listing_fails_def scene_skip_unlisted_def scene_later_def

lemma fst_emit: "fst (emit evs r) = evs @ fst r"
  by (simp add: emit_def)

lemma snd_emit: "snd (emit evs r) = snd r"
  by (simp add: emit_def)

lemma emit_emit: "emit xs (emit ys r) = emit (xs @ ys) r"
  by (simp add: emit_def)

lemma followed_by_Running: "snd a = Running \<Longrightarrow> followed_by a b = emit (fst a) b"
  by (simp add: followed_by_def)

lemma followed_by_emit: "followed_by (emit evs a) b = emit evs (followed_by a b)"
  by (cases "snd a") (simp_all add: followed_by_def emit_def)

text \<open>\<open>strings.Split\<close> always yields a first piece, the text before the first separator,
  so \<open>targetParts[0]\<close> never fails.\<close>

lemma strings_Split_not_Nil: "strings_Split s sep \<noteq> []"
  by (induction s) (auto split: list.splits)

lemma hd_strings_Split: "hd (strings_Split s sep) = takeWhile (\<lambda>c. c \<noteq> sep) s"
  by (induction s) (auto split: list.splits simp: strings_Split_not_Nil)

lemma target_hostname_takeWhile:
  "target_hostname t = Some (takeWhile (\<lambda>c. c \<noteq> CHR '':'') t)"
  using hd_strings_Split [of t "CHR '':''"] strings_Split_not_Nil [of t "CHR '':''"]
  by (auto simp: target_hostname_def split: list.splits)

lemma targets_loop_Running: "snd (targets_loop w names u ts) = Running"
  by (induction ts) (simp_all add: target_hostname_takeWhile snd_emit)

lemma upstreams_loop_Running: "snd (upstreams_loop w names ups) = Running"
  by (induction ups)
     (simp_all add: snd_emit followed_by_Running targets_loop_Running split: prod.splits)

lemma sweep_Running: "snd (sweep w names) = Running"
  by (simp add: sweep_def snd_emit upstreams_loop_Running split: prod.splits)

text \<open>The delete calls of the three nested loops of the reverse search.\<close>

lemma delete_in_targets_loop:
  "TargetsDeleteCall u a \<in> set (fst (targets_loop w names u' ts)) \<longleftrightarrow>
     u = u' \<and> (\<exists>t \<in> set ts. TargetAddr t = a \<and> takeWhile (\<lambda>c. c \<noteq> CHR '':'') a \<notin> set names)"
  by (induction ts)
     (auto simp: target_hostname_takeWhile fst_emit ArrayContains_def split: option.splits)

lemma delete_in_upstreams_loop:
  "TargetsDeleteCall u a \<in> set (fst (upstreams_loop w names ups)) \<longleftrightarrow>
     (\<exists>up \<in> set ups. UpstreamID up = u \<and>
        (\<exists>t \<in> set (fst (targets_list w u)).
           TargetAddr t = a \<and> takeWhile (\<lambda>c. c \<noteq> CHR '':'') a \<notin> set names))"
  by (induction ups)
     (auto simp: fst_emit followed_by_Running targets_loop_Running delete_in_targets_loop
        split: prod.splits)

lemma delete_in_sweep:
  "TargetsDeleteCall u a \<in> set (fst (sweep w names)) \<longleftrightarrow>
     (\<exists>up \<in> set (fst (upstreams_list w)). UpstreamID up = u \<and>
        (\<exists>t \<in> set (fst (targets_list w u)).
           TargetAddr t = a \<and> takeWhile (\<lambda>c. c \<noteq> CHR '':'') a \<notin> set names))"
  by (auto simp: sweep_def fst_emit delete_in_upstreams_loop split: prod.splits)

text \<open>Building the host names only inspects: it logs nothing and deletes nothing, and
  the names are those of the records that came back, in the order of the listing.\<close>

lemma containerHostNames_only_inspects:
  "set (fst (containerHostNames w cs)) \<subseteq> range ContainerInspectCall"
  by (induction cs) (auto simp: fst_emit split: prod.splits option.splits)

lemma containerHostNames_no_delete:
  "TargetsDeleteCall u a \<notin> set (fst (containerHostNames w cs))"
  using containerHostNames_only_inspects [of w cs] by auto

lemma containerHostNames_Some:
  "snd (containerHostNames w cs) = Some names \<Longrightarrow>
     map Some names = map (\<lambda>c. map_option Hostname (Config (fst (inspect_any w (ID c))))) cs"
  by (induction cs arbitrary: names) (auto simp: snd_emit split: prod.splits option.splits)

lemma reverse_search_events:
  assumes "list_all w = (containers, err)"
    and "snd (containerHostNames w containers) = Some names"
  shows "fst (reverse_search w) =
           ContainerListCall True [] # fst (containerHostNames w containers) @ fst (sweep w names)"
proof -
  obtain evs where "containerHostNames w containers = (evs, Some names)"
    using assms(2) by (cases "containerHostNames w containers") simp
  then show ?thesis
    using assms(1) by (simp add: reverse_search_def emit_def)
qed

lemma delete_in_reverse_search:
  assumes "list_all w = (containers, err)"
    and "snd (containerHostNames w containers) = Some names"
  shows "TargetsDeleteCall u a \<in> set (fst (reverse_search w))
           \<longleftrightarrow> TargetsDeleteCall u a \<in> set (fst (sweep w names))"
  using containerHostNames_no_delete [of u a w containers]
  by (simp add: reverse_search_events [OF assms])

text \<open>The pass over the containers stops the process only where a step follows a nil
  pointer; a \<open>continue\<close> and a \<open>break\<close> both leave it running.\<close>

lemma container_pass_Running:
  "\<forall>c \<in> set cs. snd (container_step w c) \<noteq> Fault \<Longrightarrow> snd (container_pass w cs) = Running"
  by (induction cs) (auto simp: snd_emit split: prod.splits flow.splits)

text \<open>Containers whose steps all end in \<open>continue\<close> do not keep the pass from the ones
  listed after them, and ticks that leave the process running do not keep the loop from
  the ticks after them.\<close>

lemma container_pass_append:
  "\<forall>c \<in> set before. snd (container_step w c) = Next \<Longrightarrow>
     container_pass w (before @ rest) = emit (fst (container_pass w before)) (container_pass w rest)"
  by (induction before) (auto simp: emit_def split: prod.splits flow.splits)

lemma ticks_append:
  "\<forall>v \<in> set earlier. snd (tick v) = Running \<Longrightarrow>
     ticks (earlier @ later) = emit (concat (map (\<lambda>v. fst (tick v)) earlier)) (ticks later)"
  by (induction earlier) (simp_all add: emit_def followed_by_def)

lemma authEnabled_iff: "authEnabled plugins \<longleftrightarrow> (\<exists>p \<in> set plugins. is_global_auth p)"
  by (induction plugins) auto

text \<open>The test of line 93 reads the error of \<open>ParseBool\<close>, which is nil wherever the line
  is reached: the check of the three keys never runs, and its log line never appears.\<close>

lemma configuration_check_unreachable:
  "LogMsg Warn ''labels missing for complete configuration. skipping container''
     \<notin> set (fst (container_step w container))"
  by (auto simp: container_step_def configure_and_apply_def register_or_remove_def emit_def
      split: prod.splits option.splits if_splits)

section \<open>Incomplete configuration\<close>

text \<open>
  C1. The claim: a container whose marker is true and whose labels lack one of the three
  configuration keys is skipped, with no registration and no gateway mutation. The source
  has the check (lines 95 to 100), behind a test of an error that is nil there, so the
  check is dead. On scenario D (marker true, \<open>wisdom-oss.service.path\<close> missing, running,
  no health check) the tick registers the container, with an empty service path.
\<close>

theorem missing_path_is_registered:
  "tick scene_D =
     ([LogMsg Info ''looking for docker containers from wisdom-project'',
       ContainerListCall True [(''label'', ''wisdom-oss.isService'')],
       LogMsg Info ''search finished'',
       LogMsg Info ''building registration information'',
       ContainerInspectCall ''c4'',
       LogMsg Debug ''checking container for labels'',
       LogMsg Warn ''registering service without enabled health checks'',
       RegisterContainer \<lparr>ServiceName = ''svc'', UpstreamName = ''up'', ServicePath = ''''\<rparr>
         (inspected ''c4-host'' labels_without_path ''running'' None),
       ContainerListCall True [],
       ContainerInspectCall ''c4'',
       UpstreamsListCall [''wisdom'']], Running)"
  by (simp add: tick_def scene_defs emit_def followed_by_def container_step_def
      configure_and_apply_def register_or_remove_def gateway_config_def label_def ParseBool_def
      reverse_search_def sweep_def)

section \<open>A failed inspection in the pass over the containers\<close>

text \<open>
  C2. The claim: when the inspection of one container fails, only that container is
  skipped and the pass goes on with the containers after it. The source leaves the loop
  with \<open>break\<close> (line 78) where the other skips of the same loop use \<open>continue\<close>. With
  \<open>c1\<close> failing before \<open>c2\<close>, the pass ends at \<open>c1\<close>: the tick changes nothing in the
  gateway, although the step for \<open>c2\<close> would register it.
\<close>

theorem inspect_failure_ends_pass:
  "container_pass scene_lost [\<lparr>ID = ''c1''\<rparr>, \<lparr>ID = ''c2''\<rparr>] =
     ([ContainerInspectCall ''c1'', LogMsg Error ''unable to inspect container''], Running)
   \<and> filter is_mutation (fst (tick scene_lost)) = []
   \<and> filter is_mutation (fst (container_step scene_lost \<lparr>ID = ''c2''\<rparr>)) =
       [RegisterContainer \<lparr>ServiceName = ''svc'', UpstreamName = ''up'', ServicePath = ''/api''\<rparr>
          (inspected ''c2-host'' service_labels ''running'' None)]"
  by (simp add: tick_def scene_defs emit_def followed_by_def container_step_def
      configure_and_apply_def register_or_remove_def gateway_config_def label_def ParseBool_def
      reverse_search_def sweep_def)

section \<open>When the reverse search runs\<close>

text \<open>
  C3, as the source has it. When the labelled listing succeeds with at least one
  container, the reverse search runs right after the pass over the containers, whatever
  the pass did short of following a nil pointer: skips and the \<open>break\<close> of a failed
  inspection included. When the listing fails, or lists no container, the tick ends after
  its log line: no reverse search.
\<close>

theorem reverse_search_after_pass:
  assumes "list_service w = (containers, err)"
  shows "(err = None \<and> containers \<noteq> [] \<and> (\<forall>c \<in> set containers. snd (container_step w c) \<noteq> Fault) \<longrightarrow>
            tick w =
              emit ([LogMsg Info ''looking for docker containers from wisdom-project'',
                     ContainerListCall True [(''label'', ''wisdom-oss.isService'')],
                     LogMsg Info ''search finished'',
                     LogMsg Info ''building registration information'']
                    @ fst (container_pass w containers))
                (reverse_search w))
       \<and> (err \<noteq> None \<longrightarrow>
            tick w =
              ([LogMsg Info ''looking for docker containers from wisdom-project'',
                ContainerListCall True [(''label'', ''wisdom-oss.isService'')],
                LogMsg Error ''unable to look for containers''], Running))
       \<and> (err = None \<and> containers = [] \<longrightarrow>
            tick w =
              ([LogMsg Info ''looking for docker containers from wisdom-project'',
                ContainerListCall True [(''label'', ''wisdom-oss.isService'')],
                LogMsg Info ''search finished'',
                LogMsg Warn ''no containers found''], Running))"
proof (intro conjI impI)
  assume a: "err = None \<and> containers \<noteq> [] \<and> (\<forall>c \<in> set containers. snd (container_step w c) \<noteq> Fault)"
  then have "snd (container_pass w containers) = Running"
    by (simp add: container_pass_Running)
  then show "tick w =
      emit ([LogMsg Info ''looking for docker containers from wisdom-project'',
             ContainerListCall True [(''label'', ''wisdom-oss.isService'')],
             LogMsg Info ''search finished'',
             LogMsg Info ''building registration information'']
            @ fst (container_pass w containers))
        (reverse_search w)"
    using assms a by (simp add: tick_def followed_by_Running emit_def)
next
  assume "err \<noteq> None"
  then show "tick w =
      ([LogMsg Info ''looking for docker containers from wisdom-project'',
        ContainerListCall True [(''label'', ''wisdom-oss.isService'')],
        LogMsg Error ''unable to look for containers''], Running)"
    using assms by (simp add: tick_def emit_def)
next
  assume "err = None \<and> containers = []"
  then show "tick w =
      ([LogMsg Info ''looking for docker containers from wisdom-project'',
        ContainerListCall True [(''label'', ''wisdom-oss.isService'')],
        LogMsg Info ''search finished'',
        LogMsg Warn ''no containers found''], Running)"
    using assms by (simp add: tick_def emit_def)
qed

text \<open>The pass that a failed inspection cut short is followed by the reverse search.\<close>

theorem reverse_search_after_pass_witness:
  "tick scene_lost =
     emit [LogMsg Info ''looking for docker containers from wisdom-project'',
           ContainerListCall True [(''label'', ''wisdom-oss.isService'')],
           LogMsg Info ''search finished'',
           LogMsg Info ''building registration information'',
           ContainerInspectCall ''c1'',
           LogMsg Error ''unable to inspect container'']
       (reverse_search scene_lost)"
  using reverse_search_after_pass [of scene_lost "[\<lparr>ID = ''c1''\<rparr>, \<lparr>ID = ''c2''\<rparr>]" None]
  by (simp add: scene_defs container_step_def emit_def label_def ParseBool_def
      configure_and_apply_def)

text \<open>
  C3, as the claim has it (the reverse search runs on every tick, also when the labelled
  listing fails or is empty), fails: in both scenes the unfiltered listing that opens the
  reverse search is never called, while the gateway still holds the target of the vanished
  \<open>c3\<close>.
\<close>

theorem reverse_search_skipped:
  "ContainerListCall True [] \<notin> set (fst (tick scene_listing_fails))
   \<and> ContainerListCall True [] \<notin> set (fst (tick scene_no_service))"
  by (simp add: tick_def scene_defs emit_def)

section \<open>The classification\<close>

text \<open>
  C4. For a container that was inspected and whose marker parsed as true, the step makes
  exactly one call that changes the gateway, the one the specification's table gives for
  its run state and health state: not running, deregister; running without a health
  check, register; running and unhealthy, deregister; running with any other health
  status, register. The advisory log line appears exactly for a running container without
  a health check.
\<close>

theorem classification_table:
  assumes "inspect_service w (ID container) = (info, None)"
    and "Config info = Some cfg"
    and "State info = Some st"
    and "ParseBool (label (Labels cfg) ''wisdom-oss.isService'') = (True, None)"
  shows "filter is_mutation (fst (container_step w container)) =
           [apply_action (classify (run_state st) (health_state st)) (gateway_config (Labels cfg)) info]
       \<and> (LogMsg Warn ''registering service without enabled health checks''
             \<in> set (fst (container_step w container))
            \<longleftrightarrow> run_state st = IsRunning \<and> health_state st = NoCheck)"
proof -
  have step: "container_step w container =
      ([ContainerInspectCall (ID container), LogMsg Debug ''checking container for labels'']
         @ register_or_remove (gateway_config (Labels cfg)) info st, Next)"
    using assms by (simp add: container_step_def configure_and_apply_def emit_def)
  have calls: "filter is_mutation (register_or_remove g info st) =
      [apply_action (classify (run_state st) (health_state st)) g info]" for g
    by (cases "Health st") (simp_all add: register_or_remove_def run_state_def health_state_def)
  have advisory: "LogMsg Warn ''registering service without enabled health checks''
        \<in> set (register_or_remove g info st)
      \<longleftrightarrow> run_state st = IsRunning \<and> health_state st = NoCheck" for g
    by (cases "Health st") (simp_all add: register_or_remove_def run_state_def health_state_def)
  show ?thesis
    by (simp add: step calls advisory)
qed

theorem classification_table_witness:
  "filter is_mutation (fst (container_step scene_A \<lparr>ID = ''c1''\<rparr>)) =
     [RegisterContainer \<lparr>ServiceName = ''svc'', UpstreamName = ''up'', ServicePath = ''/api''\<rparr>
        (inspected ''c1-host'' service_labels ''running'' None)]"
  using classification_table [of scene_A "\<lparr>ID = ''c1''\<rparr>"
      "inspected ''c1-host'' service_labels ''running'' None"
      "\<lparr>Hostname = ''c1-host'', Labels = service_labels\<rparr>" "\<lparr>Status = ''running'', Health = None\<rparr>"]
  by (simp add: scene_defs ParseBool_def label_def gateway_config_def run_state_def health_state_def)

section \<open>The targets the reverse search deletes\<close>

text \<open>
  What the reverse search deletes, once its list of names is built: a listed target is
  deleted if and only if the text before its first colon is not among the names, the
  names are those of the inspection records of the containers that the unfiltered listing
  handed back, and nothing else is deleted.
\<close>

lemma deletes_follow_built_names:
  assumes "list_all w = (containers, err)"
    and "snd (containerHostNames w containers) = Some names"
    and "upstream \<in> set (fst (upstreams_list w))"
    and "target \<in> set (fst (targets_list w (UpstreamID upstream)))"
  shows "hd (fst (reverse_search w)) = ContainerListCall True []
       \<and> map Some names = map (\<lambda>c. map_option Hostname (Config (fst (inspect_any w (ID c))))) containers
       \<and> target_hostname (TargetAddr target) = Some (takeWhile (\<lambda>c. c \<noteq> CHR '':'') (TargetAddr target))
       \<and> (TargetsDeleteCall (UpstreamID upstream) (TargetAddr target) \<in> set (fst (reverse_search w))
            \<longleftrightarrow> takeWhile (\<lambda>c. c \<noteq> CHR '':'') (TargetAddr target) \<notin> set names)
       \<and> (\<forall>u a. TargetsDeleteCall u a \<in> set (fst (reverse_search w)) \<longrightarrow>
             (\<exists>up \<in> set (fst (upstreams_list w)). UpstreamID up = u
                \<and> (\<exists>t \<in> set (fst (targets_list w u)). TargetAddr t = a)))"
proof -
  note deleted = delete_in_reverse_search [OF assms(1,2)]
  have first: "hd (fst (reverse_search w)) = ContainerListCall True []"
    by (simp add: reverse_search_events [OF assms(1,2)])
  have built: "map Some names = map (\<lambda>c. map_option Hostname (Config (fst (inspect_any w (ID c))))) containers"
    using assms(2) by (rule containerHostNames_Some)
  have this_one: "TargetsDeleteCall (UpstreamID upstream) (TargetAddr target) \<in> set (fst (reverse_search w))
      \<longleftrightarrow> takeWhile (\<lambda>c. c \<noteq> CHR '':'') (TargetAddr target) \<notin> set names"
    using assms(3,4) unfolding deleted delete_in_sweep by blast
  have listed: "\<forall>u a. TargetsDeleteCall u a \<in> set (fst (reverse_search w)) \<longrightarrow>
      (\<exists>up \<in> set (fst (upstreams_list w)). UpstreamID up = u
         \<and> (\<exists>t \<in> set (fst (targets_list w u)). TargetAddr t = a))"
    unfolding deleted delete_in_sweep by blast
  show ?thesis
    by (intro conjI) (fact first built this_one listed target_hostname_takeWhile)+
qed

text \<open>
  C5. The claim: a managed target is deleted if and only if its host is not among the
  host names of every container known to the runtime, and targets whose host is among them
  are left unchanged. The source drops the error of the unfiltered listing (line 131; the
  labelled listing checks its own on lines 61 to 64) and builds the names from what came
  back. When that listing fails, the list of names is empty: in the tick that has just
  registered the running \<open>c1\<close>, the reverse search deletes the target of \<open>c1\<close>.
\<close>

theorem failed_listing_deletes_live_target:
  "tick scene_all_listing_fails =
     ([LogMsg Info ''looking for docker containers from wisdom-project'',
       ContainerListCall True [(''label'', ''wisdom-oss.isService'')],
       LogMsg Info ''search finished'',
       LogMsg Info ''building registration information'',
       ContainerInspectCall ''c1'',
       LogMsg Debug ''checking container for labels'',
       LogMsg Warn ''registering service without enabled health checks'',
       RegisterContainer \<lparr>ServiceName = ''svc'', UpstreamName = ''up'', ServicePath = ''/api''\<rparr>
         (inspected ''c1-host'' service_labels ''running'' None),
       ContainerListCall True [],
       UpstreamsListCall [''wisdom''],
       TargetsListCall ''u1'' [''wisdom''],
       TargetsDeleteCall ''u1'' ''c1-host:8000'',
       TargetsDeleteCall ''u1'' ''c3-host:8000''], Running)"
  by (simp add: tick_def scene_defs emit_def followed_by_def container_step_def
      configure_and_apply_def register_or_remove_def gateway_config_def label_def ParseBool_def
      reverse_search_def sweep_def target_hostname_def ArrayContains_def)

section \<open>The global authentication plugin\<close>

text \<open>
  What start-up does with the plugin listing it was handed: it asks the gateway to create
  the global authentication plugin exactly when that listing holds no global instance
  (right name, no service, no route), and asks for nothing else; when the listing is what
  the gateway holds, at most one global instance stays at most one. A refused creation is
  a warning and nothing more, and start-up always goes on to the loop.
\<close>

lemma create_call_iff_none_listed:
  "(PluginsCreateCall (auth_plugin (introspection_url r)) \<in> set (fst (startup r))
      \<longleftrightarrow> \<not> (\<exists>p \<in> set (fst (plugins_list_all r)). is_global_auth p))
   \<and> (\<forall>p. PluginsCreateCall p \<in> set (fst (startup r)) \<longrightarrow> p = auth_plugin (introspection_url r))
   \<and> is_global_auth (auth_plugin (introspection_url r))
   \<and> (fst (plugins_list_all r) = gw \<and> length (filter is_global_auth gw) \<le> 1
        \<longrightarrow> length (filter is_global_auth (plugins_after_startup gw r)) \<le> 1)
   \<and> (\<not> (\<exists>p \<in> set (fst (plugins_list_all r)). is_global_auth p) \<and> plugins_create r \<noteq> None
        \<longrightarrow> startup r =
             ([LogMsg NoLevel ''starting service watcher'', PluginsListAllCall,
               PluginsCreateCall (auth_plugin (introspection_url r)),
               LogMsg Warn ''unable to enable global authentication. services may be unprotected''],
              Running))
   \<and> snd (startup r) = Running
   \<and> main r ws = emit (fst (startup r)) (ticks ws)"
proof -
  obtain plugins e where listing: "plugins_list_all r = (plugins, e)"
    by (cases "plugins_list_all r")
  have events: "fst (startup r) =
      [LogMsg NoLevel ''starting service watcher'', PluginsListAllCall]
      @ (if \<not> authEnabled plugins then
           PluginsCreateCall (auth_plugin (introspection_url r))
           # (case plugins_create r of
                Some err \<Rightarrow> [LogMsg Warn ''unable to enable global authentication. services may be unprotected'']
              | None \<Rightarrow> [])
         else [])"
    by (simp add: startup_def emit_def listing split: option.splits)
  have going: "snd (startup r) = Running"
    by (simp add: startup_def emit_def listing split: option.splits)
  have attempt: "PluginsCreateCall (auth_plugin (introspection_url r)) \<in> set (fst (startup r))
      \<longleftrightarrow> \<not> (\<exists>p \<in> set (fst (plugins_list_all r)). is_global_auth p)"
    by (simp add: events listing authEnabled_iff split: option.splits)
  have only: "\<forall>p. PluginsCreateCall p \<in> set (fst (startup r)) \<longrightarrow> p = auth_plugin (introspection_url r)"
    by (auto simp: events split: option.splits if_splits)
  have global: "is_global_auth (auth_plugin (introspection_url r))"
    by (simp add: is_global_auth_def auth_plugin_def)
  have inv: "fst (plugins_list_all r) = gw \<and> length (filter is_global_auth gw) \<le> 1
      \<longrightarrow> length (filter is_global_auth (plugins_after_startup gw r)) \<le> 1"
  proof
    assume a: "fst (plugins_list_all r) = gw \<and> length (filter is_global_auth gw) \<le> 1"
    show "length (filter is_global_auth (plugins_after_startup gw r)) \<le> 1"
    proof (cases "\<exists>p \<in> set gw. is_global_auth p")
      case True
      then have "plugins_after_startup gw r = gw"
        using a attempt by (simp add: plugins_after_startup_def)
      then show ?thesis using a by simp
    next
      case False
      then have "filter is_global_auth gw = []"
        by (simp add: filter_empty_conv)
      then show ?thesis
        by (simp add: plugins_after_startup_def)
    qed
  qed
  have warned: "\<not> (\<exists>p \<in> set (fst (plugins_list_all r)). is_global_auth p) \<and> plugins_create r \<noteq> None
      \<longrightarrow> startup r =
           ([LogMsg NoLevel ''starting service watcher'', PluginsListAllCall,
             PluginsCreateCall (auth_plugin (introspection_url r)),
             LogMsg Warn ''unable to enable global authentication. services may be unprotected''],
            Running)"
    by (auto simp: startup_def emit_def listing authEnabled_iff)
  have loop: "main r ws = emit (fst (startup r)) (ticks ws)"
    by (simp add: main_def followed_by_Running going)
  show ?thesis
    by (intro conjI) (fact attempt only global inv warned going loop)+
qed


section \<open>Failed listings of the gateway\<close>

text \<open>
  C7. A failed listing hands back no entry with its error. When the listing of the
  upstreams fails, the search through the gateway is the listing call and a warning: no
  target is listed and none deleted. When the listing of the targets of one upstream
  fails, that upstream contributes its listing call and a warning, and the search goes on
  with the next upstream. The search never stops the process, and the tick after it is
  served.
\<close>

theorem failed_gateway_listing:
  "(upstreams_list w = ([], Some e) \<longrightarrow>
      sweep w names =
        ([UpstreamsListCall [''wisdom''],
          LogMsg Warn ''unable to get list of upstreams. skipping reverse search this time''], Running))
   \<and> (targets_list w (UpstreamID upstream) = ([], Some e) \<longrightarrow>
        upstreams_loop w names (upstream # upstreams) =
          emit [TargetsListCall (UpstreamID upstream) [''wisdom''],
                LogMsg Warn ''unable to get list of upstreams. skipping reverse search this time'']
            (upstreams_loop w names upstreams))
   \<and> snd (sweep w names) = Running
   \<and> (snd (tick w) = Running \<longrightarrow> ticks (w # ws) = emit (fst (tick w)) (ticks ws))"
proof -
  have ups: "upstreams_list w = ([], Some e) \<longrightarrow>
      sweep w names =
        ([UpstreamsListCall [''wisdom''],
          LogMsg Warn ''unable to get list of upstreams. skipping reverse search this time''], Running)"
    by (simp add: sweep_def emit_def)
  have tgs: "targets_list w (UpstreamID upstream) = ([], Some e) \<longrightarrow>
      upstreams_loop w names (upstream # upstreams) =
        emit [TargetsListCall (UpstreamID upstream) [''wisdom''],
              LogMsg Warn ''unable to get list of upstreams. skipping reverse search this time'']
          (upstreams_loop w names upstreams)"
    by (simp add: emit_def followed_by_def)
  have on: "snd (tick w) = Running \<longrightarrow> ticks (w # ws) = emit (fst (tick w)) (ticks ws)"
    by (simp add: followed_by_Running)
  show ?thesis
    by (intro conjI) (fact ups tgs sweep_Running on)+
qed

theorem failed_gateway_listing_witness:
  "sweep scene_gateway_down [''c1-host''] =
     ([UpstreamsListCall [''wisdom''],
       LogMsg Warn ''unable to get list of upstreams. skipping reverse search this time''], Running)
   \<and> upstreams_loop scene_targets_down [''c1-host''] [\<lparr>UpstreamID = ''u1''\<rparr>] =
       ([TargetsListCall ''u1'' [''wisdom''],
         LogMsg Warn ''unable to get list of upstreams. skipping reverse search this time''], Running)
   \<and> ticks [scene_gateway_down, scene_A] = emit (fst (tick scene_gateway_down)) (ticks [scene_A])"
  using failed_gateway_listing [of scene_gateway_down "''gateway unreachable''" "[''c1-host'']"
          "\<lparr>UpstreamID = ''u1''\<rparr>" "[]" "[scene_A]"]
        failed_gateway_listing [of scene_targets_down "''gateway unreachable''" "[''c1-host'']"
          "\<lparr>UpstreamID = ''u1''\<rparr>" "[]" "[]"]
  by (simp add: scene_defs emit_def tick_def followed_by_def container_step_def
      label_def ParseBool_def configure_and_apply_def reverse_search_def sweep_def
      target_hostname_def ArrayContains_def register_or_remove_def)

section \<open>Containers that are not marked\<close>

text \<open>
  C8, as the source has it. In any tick, a container whose marker does not parse as a
  boolean, or parses as false, is logged and skipped: its step ends in \<open>continue\<close> and
  changes nothing in the gateway, and the pass goes on with the containers after it.
  Nothing is kept from one tick to the next: whatever the earlier ticks did, as long as
  they left the process running, a tick whose labelled listing succeeds and holds the
  container, and in which the steps of the containers listed before it end in
  \<open>continue\<close>, inspects the container and evaluates it again from the labels of that tick.
\<close>

theorem unmarked_container_skipped:
  assumes "inspect_service w (ID container) = (info, None)"
    and "Config info = Some cfg"
    and "snd (ParseBool (label (Labels cfg) ''wisdom-oss.isService'')) \<noteq> None
         \<or> \<not> fst (ParseBool (label (Labels cfg) ''wisdom-oss.isService''))"
  shows "container_step w container =
           ([ContainerInspectCall (ID container), LogMsg Debug ''checking container for labels'']
              @ (if snd (ParseBool (label (Labels cfg) ''wisdom-oss.isService'')) \<noteq> None
                 then [LogMsg Warn ''unable to convert label value to bool'',
                       LogMsg Info ''skipping container'']
                 else [LogMsg Info ''container not marked as service. skipping container'']), Next)
       \<and> filter is_mutation (fst (container_step w container)) = []
       \<and> container_pass w (container # containers) =
           emit (fst (container_step w container)) (container_pass w containers)
       \<and> (list_service w = (before @ container # containers, None)
            \<and> (\<forall>c \<in> set before. snd (container_step w c) = Next) \<longrightarrow>
            tick w =
              emit ([LogMsg Info ''looking for docker containers from wisdom-project'',
                     ContainerListCall True [(''label'', ''wisdom-oss.isService'')],
                     LogMsg Info ''search finished'',
                     LogMsg Info ''building registration information'']
                    @ fst (container_pass w before) @ fst (container_step w container))
                (followed_by (container_pass w containers) (reverse_search w)))
       \<and> ((\<forall>v \<in> set earlier. snd (tick v) = Running) \<longrightarrow>
            ticks (earlier @ w # later) =
              emit (concat (map (\<lambda>v. fst (tick v)) earlier)) (followed_by (tick w) (ticks later)))"
proof -
  let ?skip = "[ContainerInspectCall (ID container), LogMsg Debug ''checking container for labels'']
              @ (if snd (ParseBool (label (Labels cfg) ''wisdom-oss.isService'')) \<noteq> None
                 then [LogMsg Warn ''unable to convert label value to bool'',
                       LogMsg Info ''skipping container'']
                 else [LogMsg Info ''container not marked as service. skipping container''])"
  have step: "container_step w container = (?skip, Next)"
    using assms by (auto simp: container_step_def emit_def split: prod.splits)
  have quiet: "filter is_mutation (fst (container_step w container)) = []"
    by (simp add: step)
  have pass: "container_pass w (container # containers) =
      emit (fst (container_step w container)) (container_pass w containers)"
    by (simp add: step)
  have reached: "list_service w = (before @ container # containers, None)
        \<and> (\<forall>c \<in> set before. snd (container_step w c) = Next) \<longrightarrow>
      tick w =
        emit ([LogMsg Info ''looking for docker containers from wisdom-project'',
               ContainerListCall True [(''label'', ''wisdom-oss.isService'')],
               LogMsg Info ''search finished'',
               LogMsg Info ''building registration information'']
              @ fst (container_pass w before) @ fst (container_step w container))
          (followed_by (container_pass w containers) (reverse_search w))"
  proof
    assume a: "list_service w = (before @ container # containers, None)
        \<and> (\<forall>c \<in> set before. snd (container_step w c) = Next)"
    then have "container_pass w (before @ container # containers) =
        emit (fst (container_pass w before)) (container_pass w (container # containers))"
      by (simp add: container_pass_append)
    then have whole: "container_pass w (before @ container # containers) =
        emit (fst (container_pass w before) @ fst (container_step w container))
          (container_pass w containers)"
      by (simp only: pass emit_emit)
    show "tick w =
        emit ([LogMsg Info ''looking for docker containers from wisdom-project'',
               ContainerListCall True [(''label'', ''wisdom-oss.isService'')],
               LogMsg Info ''search finished'',
               LogMsg Info ''building registration information'']
              @ fst (container_pass w before) @ fst (container_step w container))
          (followed_by (container_pass w containers) (reverse_search w))"
      using a by (simp add: tick_def whole followed_by_emit emit_emit)
  qed
  have run: "(\<forall>v \<in> set earlier. snd (tick v) = Running) \<longrightarrow>
      ticks (earlier @ w # later) =
        emit (concat (map (\<lambda>v. fst (tick v)) earlier)) (followed_by (tick w) (ticks later))"
    by (simp add: ticks_append)
  show ?thesis
    by (intro conjI) (fact step quiet pass reached run)+
qed

theorem unmarked_container_skipped_witness:
  "container_step scene_later \<lparr>ID = ''c5''\<rparr> =
     ([ContainerInspectCall ''c5'', LogMsg Debug ''checking container for labels'',
       LogMsg Warn ''unable to convert label value to bool'', LogMsg Info ''skipping container''], Next)
   \<and> tick scene_later =
       emit ([LogMsg Info ''looking for docker containers from wisdom-project'',
              ContainerListCall True [(''label'', ''wisdom-oss.isService'')],
              LogMsg Info ''search finished'',
              LogMsg Info ''building registration information'']
             @ fst (container_pass scene_later [\<lparr>ID = ''c1''\<rparr>])
             @ fst (container_step scene_later \<lparr>ID = ''c5''\<rparr>))
         (followed_by (container_pass scene_later []) (reverse_search scene_later))
   \<and> ticks ([scene_skip] @ scene_later # []) =
       emit (concat (map (\<lambda>v. fst (tick v)) [scene_skip])) (followed_by (tick scene_later) (ticks []))"
proof -
  let ?info = "inspected ''c5-host'' [(''wisdom-oss.isService'', ''yes'')] ''running'' None"
  let ?cfg = "\<lparr>Hostname = ''c5-host'', Labels = [(''wisdom-oss.isService'', ''yes'')]\<rparr>"
  have inspect: "inspect_service scene_later (ID \<lparr>ID = ''c5''\<rparr>) = (?info, None)"
    by (simp add: scene_defs)
  have config: "Config ?info = Some ?cfg"
    by (simp add: inspected_def)
  have marker: "snd (ParseBool (label (Labels ?cfg) ''wisdom-oss.isService'')) \<noteq> None
      \<or> \<not> fst (ParseBool (label (Labels ?cfg) ''wisdom-oss.isService''))"
    by (simp add: label_def ParseBool_def)
  have listed: "list_service scene_later = ([\<lparr>ID = ''c1''\<rparr>] @ \<lparr>ID = ''c5''\<rparr> # [], None)"
    by (simp add: scene_defs)
  have reached: "\<forall>c \<in> set [\<lparr>ID = ''c1''\<rparr>]. snd (container_step scene_later c) = Next"
    by (simp add: scene_defs container_step_def configure_and_apply_def emit_def label_def
        ParseBool_def)
  have alive: "\<forall>v \<in> set [scene_skip]. snd (tick v) = Running"
    by (simp add: tick_def scene_defs emit_def followed_by_def container_step_def
        configure_and_apply_def label_def ParseBool_def reverse_search_def sweep_def)
  have logged: "(if snd (ParseBool (label (Labels ?cfg) ''wisdom-oss.isService'')) \<noteq> None
      then [LogMsg Warn ''unable to convert label value to bool'', LogMsg Info ''skipping container'']
      else [LogMsg Info ''container not marked as service. skipping container'']) =
      [LogMsg Warn ''unable to convert label value to bool'', LogMsg Info ''skipping container'']"
    by (simp add: label_def ParseBool_def)
  note t = unmarked_container_skipped [OF inspect config marker,
      where containers = "[]" and before = "[\<lparr>ID = ''c1''\<rparr>]"
        and earlier = "[scene_skip]" and later = "[]"]
  have skipped: "container_step scene_later \<lparr>ID = ''c5''\<rparr> =
      ([ContainerInspectCall ''c5'', LogMsg Debug ''checking container for labels'',
        LogMsg Warn ''unable to convert label value to bool'', LogMsg Info ''skipping container''], Next)"
    using t [THEN conjunct1] logged by simp
  have in_tick: "tick scene_later =
      emit ([LogMsg Info ''looking for docker containers from wisdom-project'',
             ContainerListCall True [(''label'', ''wisdom-oss.isService'')],
             LogMsg Info ''search finished'',
             LogMsg Info ''building registration information'']
            @ fst (container_pass scene_later [\<lparr>ID = ''c1''\<rparr>])
            @ fst (container_step scene_later \<lparr>ID = ''c5''\<rparr>))
        (followed_by (container_pass scene_later []) (reverse_search scene_later))"
    using t [THEN conjunct2, THEN conjunct2, THEN conjunct2, THEN conjunct1] listed reached
    by blast
  have in_run: "ticks ([scene_skip] @ scene_later # []) =
      emit (concat (map (\<lambda>v. fst (tick v)) [scene_skip])) (followed_by (tick scene_later) (ticks []))"
    using t [THEN conjunct2, THEN conjunct2, THEN conjunct2, THEN conjunct2] alive
    by blast
  show ?thesis
    by (intro conjI) (fact skipped in_tick in_run)+
qed

text \<open>
  C8, as the claim has it (the container is evaluated again on every later tick), fails:
  in a tick whose labelled listing fails the container, still there with its marker
  \<open>yes\<close>, is not inspected at all.
\<close>

theorem not_reevaluated_when_listing_fails:
  "inspect_service scene_skip_unlisted ''c5'' =
     (inspected ''c5-host'' [(''wisdom-oss.isService'', ''yes'')] ''running'' None, None)
   \<and> tick scene_skip_unlisted =
       ([LogMsg Info ''looking for docker containers from wisdom-project'',
         ContainerListCall True [(''label'', ''wisdom-oss.isService'')],
         LogMsg Error ''unable to look for containers''], Running)
   \<and> ContainerInspectCall ''c5'' \<notin> set (fst (ticks [scene_skip_unlisted]))"
  by (simp add: tick_def scene_defs emit_def followed_by_def)


section \<open>A failed inspection in the reverse search\<close>

text \<open>
  C9. The claim: when an inspection fails while the host names are built, the empty name
  is appended and the target of the container is deleted in this pass. The source drops
  the error of the inspection (line 134; the inspection of the first pass checks its own
  on lines 76 to 79) and reads \<open>info.Config.Hostname\<close> from the record that came back. A
  failed inspection hands back the zero value of the record, which has no configuration:
  the process stops at the read, no list of names comes about, no upstream is listed and
  the target of \<open>c1\<close> is not deleted.
\<close>

theorem failed_inspection_crashes:
  "reverse_search scene_reap_blind = ([ContainerListCall True [], ContainerInspectCall ''c1''], Crashed)
   \<and> snd (containerHostNames scene_reap_blind [\<lparr>ID = ''c1''\<rparr>]) = None
   \<and> TargetsDeleteCall ''u1'' ''c1-host:8000'' \<notin> set (fst (reverse_search scene_reap_blind))
   \<and> snd (ticks [scene_reap_blind, scene_A]) = Crashed"
  by (simp add: tick_def reverse_search_def scene_defs emit_def followed_by_def container_step_def
      configure_and_apply_def register_or_remove_def gateway_config_def label_def ParseBool_def)

section \<open>The spellings of the marker\<close>

text \<open>
  C10. The marker is read with \<open>ParseBool\<close>. For an inspected container, each of
  \<open>1\<close>, \<open>t\<close>, \<open>T\<close>, \<open>true\<close>, \<open>TRUE\<close>, \<open>True\<close> sends it on to registration or removal; each of
  \<open>0\<close>, \<open>f\<close>, \<open>F\<close>, \<open>false\<close>, \<open>FALSE\<close>, \<open>False\<close> has it skipped as not marked; every other
  value, the empty one of a missing label among them, has it skipped as unparsable.
\<close>

theorem marker_ParseBool:
  assumes "inspect_service w (ID container) = (info, None)"
    and "Config info = Some cfg"
    and "State info = Some st"
  shows "(label (Labels cfg) ''wisdom-oss.isService'' \<in> set [''1'', ''t'', ''T'', ''true'', ''TRUE'', ''True'']
            \<longrightarrow> container_step w container =
                  ([ContainerInspectCall (ID container), LogMsg Debug ''checking container for labels'']
                     @ register_or_remove (gateway_config (Labels cfg)) info st, Next))
       \<and> (label (Labels cfg) ''wisdom-oss.isService'' \<in> set [''0'', ''f'', ''F'', ''false'', ''FALSE'', ''False'']
            \<longrightarrow> container_step w container =
                  ([ContainerInspectCall (ID container), LogMsg Debug ''checking container for labels'',
                    LogMsg Info ''container not marked as service. skipping container''], Next))
       \<and> (label (Labels cfg) ''wisdom-oss.isService''
              \<notin> set [''1'', ''t'', ''T'', ''true'', ''TRUE'', ''True'',
                      ''0'', ''f'', ''F'', ''false'', ''FALSE'', ''False'']
            \<longrightarrow> container_step w container =
                  ([ContainerInspectCall (ID container), LogMsg Debug ''checking container for labels'',
                    LogMsg Warn ''unable to convert label value to bool'',
                    LogMsg Info ''skipping container''], Next))"
proof -
  let ?v = "label (Labels cfg) ''wisdom-oss.isService''"
  have t: "?v \<in> set [''1'', ''t'', ''T'', ''true'', ''TRUE'', ''True''] \<Longrightarrow> ParseBool ?v = (True, None)"
    by (simp add: ParseBool_def)
  have f: "?v \<in> set [''0'', ''f'', ''F'', ''false'', ''FALSE'', ''False''] \<Longrightarrow> ParseBool ?v = (False, None)"
    unfolding ParseBool_def by auto
  have e: "?v \<notin> set [''1'', ''t'', ''T'', ''true'', ''TRUE'', ''True'',
                       ''0'', ''f'', ''F'', ''false'', ''FALSE'', ''False'']
      \<Longrightarrow> ParseBool ?v = (False, Some ''invalid syntax'')"
    unfolding ParseBool_def by auto
  have step: "container_step w container =
      emit [ContainerInspectCall (ID container), LogMsg Debug ''checking container for labels'']
        (case ParseBool ?v of (isService, err) \<Rightarrow>
           if err \<noteq> None then
             ([LogMsg Warn ''unable to convert label value to bool'', LogMsg Info ''skipping container''], Next)
           else if \<not> isService then
             ([LogMsg Info ''container not marked as service. skipping container''], Next)
           else configure_and_apply err info cfg)"
    using assms(1,2) by (simp add: container_step_def emit_def)
  show ?thesis
  proof (intro conjI impI)
    assume "?v \<in> set [''1'', ''t'', ''T'', ''true'', ''TRUE'', ''True'']"
    then have "ParseBool ?v = (True, None)"
      by (rule t)
    then show "container_step w container =
        ([ContainerInspectCall (ID container), LogMsg Debug ''checking container for labels'']
           @ register_or_remove (gateway_config (Labels cfg)) info st, Next)"
      using assms(3) by (simp add: step configure_and_apply_def emit_def)
  next
    assume "?v \<in> set [''0'', ''f'', ''F'', ''false'', ''FALSE'', ''False'']"
    then have "ParseBool ?v = (False, None)"
      by (rule f)
    then show "container_step w container =
        ([ContainerInspectCall (ID container), LogMsg Debug ''checking container for labels'',
          LogMsg Info ''container not marked as service. skipping container''], Next)"
      by (simp add: step emit_def)
  next
    assume "?v \<notin> set [''1'', ''t'', ''T'', ''true'', ''TRUE'', ''True'',
                        ''0'', ''f'', ''F'', ''false'', ''FALSE'', ''False'']"
    then have "ParseBool ?v = (False, Some ''invalid syntax'')"
      by (rule e)
    then show "container_step w container =
        ([ContainerInspectCall (ID container), LogMsg Debug ''checking container for labels'',
          LogMsg Warn ''unable to convert label value to bool'', LogMsg Info ''skipping container''], Next)"
      by (simp add: step emit_def)
  qed
qed

theorem marker_ParseBool_witness:
  "container_step scene_A \<lparr>ID = ''c1''\<rparr> =
     ([ContainerInspectCall ''c1'', LogMsg Debug ''checking container for labels'',
       LogMsg Warn ''registering service without enabled health checks'',
       RegisterContainer \<lparr>ServiceName = ''svc'', UpstreamName = ''up'', ServicePath = ''/api''\<rparr>
         (inspected ''c1-host'' service_labels ''running'' None)], Next)
   \<and> container_step scene_skip \<lparr>ID = ''c5''\<rparr> =
     ([ContainerInspectCall ''c5'', LogMsg Debug ''checking container for labels'',
       LogMsg Warn ''unable to convert label value to bool'', LogMsg Info ''skipping container''], Next)"
  using marker_ParseBool [of scene_A "\<lparr>ID = ''c1''\<rparr>"
          "inspected ''c1-host'' service_labels ''running'' None"
          "\<lparr>Hostname = ''c1-host'', Labels = service_labels\<rparr>"
          "\<lparr>Status = ''running'', Health = None\<rparr>"]
        marker_ParseBool [of scene_skip "\<lparr>ID = ''c5''\<rparr>"
          "inspected ''c5-host'' [(''wisdom-oss.isService'', ''yes'')] ''running'' None"
          "\<lparr>Hostname = ''c5-host'', Labels = [(''wisdom-oss.isService'', ''yes'')]\<rparr>"
          "\<lparr>Status = ''running'', Health = None\<rparr>"]
  by (simp add: scene_defs label_def register_or_remove_def gateway_config_def)

end
